theory Spec2Isabelle
  imports Main "HOL-Library.Multiset" "HOL-Library.Char_ord" "HOL-Library.List_Lexorder"
    "HOL-Library.Product_Lexorder"
begin

section \<open>Cells, errors and Python string helpers\<close>

text \<open>
  A cell of a sheet is a number, a text, a truth value or a missing value (pandas' NaN).
  A number is an integer (\<open>Num\<close>: a Python \<^verbatim>\<open>int\<close> or a NumPy \<^verbatim>\<open>int64\<close>) or a
  \<^verbatim>\<open>float64\<close> (\<open>Flt\<close>). The floats of the model are the doubles with an integral value:
  \<open>Flt x\<close> is the double whose value is the integer \<open>x\<close>. Doubles with a fractional part,
  the infinities and the negative zero are outside the model. Strings are byte strings, so
  the Python string methods below are their ASCII restrictions.
\<close>

datatype cell = Num int | Flt int | Str string | Bool bool | Missing

datatype error = ValueError string | TypeError | AttributeError | KeyError

definition py_isspace :: "char \<Rightarrow> bool" where
  "py_isspace c = (of_char c \<in> {9, 10, 11, 12, 13, 28, 29, 30, 31, 32 :: nat})"

definition py_isdigit_char :: "char \<Rightarrow> bool" where
  "py_isdigit_char c = (48 \<le> (of_char c :: nat) \<and> (of_char c :: nat) \<le> 57)"

definition py_strip :: "string \<Rightarrow> string" where
  "py_strip s = rev (dropWhile py_isspace (rev (dropWhile py_isspace s)))"

text \<open>\<^verbatim>\<open>s.lstrip("0")\<close>\<close>

definition lstrip0 :: "string \<Rightarrow> string" where
  "lstrip0 s = dropWhile (\<lambda>c. c = CHR ''0'') s"

text \<open>\<^verbatim>\<open>s.isdigit()\<close>: at least one character, and every character a digit.\<close>

definition py_isdigit :: "string \<Rightarrow> bool" where
  "py_isdigit s = (s \<noteq> [] \<and> list_all py_isdigit_char s)"

definition digit_val :: "char \<Rightarrow> int" where
  "digit_val c = int (of_char c) - 48"

definition decimal :: "string \<Rightarrow> int" where
  "decimal s = foldl (\<lambda>acc c. 10 * acc + digit_val c) 0 s"

text \<open>
  \<^verbatim>\<open>int(s)\<close> on a string: the whitespace that \<^verbatim>\<open>int\<close> ignores around an ASCII literal is
  the blank, the tab, the line feed, the vertical tab, the form feed and the carriage
  return; the separators 0x1C to 0x1F, which \<^verbatim>\<open>strip()\<close> removes, are not among them. One
  sign is allowed, the rest must be a non-empty run of digits; anything else raises
  ValueError. (Underscore digit grouping is not modelled.)
\<close>

definition int_isspace :: "char \<Rightarrow> bool" where
  "int_isspace c = (of_char c \<in> {9, 10, 11, 12, 13, 32 :: nat})"

definition py_int :: "string \<Rightarrow> error + int" where
  "py_int s =
     (let t = rev (dropWhile int_isspace (rev (dropWhile int_isspace s))) in
      case t of
        [] \<Rightarrow> Inl (ValueError ''invalid literal for int()'')
      | c # u \<Rightarrow>
          if c = CHR ''-'' then (if py_isdigit u then Inr (- decimal u) else Inl (ValueError ''invalid literal for int()''))
          else if c = CHR ''+'' then (if py_isdigit u then Inr (decimal u) else Inl (ValueError ''invalid literal for int()''))
          else if py_isdigit t then Inr (decimal t) else Inl (ValueError ''invalid literal for int()''))"

section \<open>Value normalizer\<close>

text \<open>
  \<^verbatim>\<open>
  def strip_leading_zeros(val):
      if isinstance(val, str) and val.strip().lstrip("0").isdigit():
          return int(val.lstrip("0") or "0")
      return val
  \<close>
\<close>

definition strip_leading_zeros :: "cell \<Rightarrow> error + cell" where
  "strip_leading_zeros val =
     (case val of
        Str s \<Rightarrow>
          if py_isdigit (lstrip0 (py_strip s))
          then (case py_int (if lstrip0 s = [] then ''0'' else lstrip0 s) of
                  Inl e \<Rightarrow> Inl e
                | Inr n \<Rightarrow> Inr (Num n))
          else Inr val
      | _ \<Rightarrow> Inr val)"

section \<open>More Python string helpers\<close>

definition py_lower_char :: "char \<Rightarrow> char" where
  "py_lower_char c =
     (if 65 \<le> (of_char c :: nat) \<and> (of_char c :: nat) \<le> 90 then char_of (of_char c + 32 :: nat) else c)"

definition py_upper_char :: "char \<Rightarrow> char" where
  "py_upper_char c =
     (if 97 \<le> (of_char c :: nat) \<and> (of_char c :: nat) \<le> 122 then char_of (of_char c - 32 :: nat) else c)"

definition py_lower :: "string \<Rightarrow> string" where
  "py_lower s = map py_lower_char s"

definition py_upper :: "string \<Rightarrow> string" where
  "py_upper s = map py_upper_char s"

text \<open>\<^verbatim>\<open>sub in s\<close> on strings: \<open>sub\<close> occurs as a contiguous run of \<open>s\<close>.\<close>

fun py_in :: "string \<Rightarrow> string \<Rightarrow> bool" where
  "py_in sub [] = (sub = [])"
| "py_in sub (c # s) = (take (length sub) (c # s) = sub \<or> py_in sub s)"

text \<open>\<^verbatim>\<open>s.endswith(suf)\<close>\<close>

definition py_endswith :: "string \<Rightarrow> string \<Rightarrow> bool" where
  "py_endswith s suf = (length suf \<le> length s \<and> drop (length s - length suf) s = suf)"

text \<open>\<^verbatim>\<open>sep.join(xs)\<close>\<close>

fun py_join :: "string \<Rightarrow> string list \<Rightarrow> string" where
  "py_join sep [] = []"
| "py_join sep [x] = x"
| "py_join sep (x # y # ys) = x @ sep @ py_join sep (y # ys)"

fun str_of_nat :: "nat \<Rightarrow> string" where
  "str_of_nat n =
     (if n < 10 then [char_of (48 + n)]
      else str_of_nat (n div 10) @ [char_of (48 + n mod 10)])"

declare str_of_nat.simps [simp del]

definition str_of_int :: "int \<Rightarrow> string" where
  "str_of_int i = (if i < 0 then CHR ''-'' # str_of_nat (nat (- i)) else str_of_nat (nat i))"

section \<open>Machine numbers\<close>

text \<open>
  An \<^verbatim>\<open>int64\<close> result is the mathematical result taken into the range from \<open>- 2^63\<close> to
  \<open>2^63 - 1\<close> (NumPy wraps around without a warning).
\<close>

definition wrap64 :: "int \<Rightarrow> int" where
  "wrap64 i = (i + 2 ^ 63) mod 2 ^ 64 - 2 ^ 63"

text \<open>
  A \<^verbatim>\<open>float64\<close> has 53 significant bits. \<open>f64_round x\<close> is the double nearest to the integer
  \<open>x\<close>, the one with the even significand when two are equally near; every integer below
  \<open>2^53\<close> in magnitude is a double. The overflow to infinity above \<open>2^1024\<close> is not modelled.
  The sum and the difference of two doubles are the exact results rounded.
\<close>

function bit_length :: "int \<Rightarrow> nat" where
  "bit_length n = (if n \<le> 0 then 0 else Suc (bit_length (n div 2)))"
  by pat_completeness auto

termination
  by (relation "measure nat") auto

declare bit_length.simps [simp del]

definition f64_round :: "int \<Rightarrow> int" where
  "f64_round x =
     (let a = \<bar>x\<bar> in
      if a < 2 ^ 53 then x
      else let u = 2 ^ (bit_length a - 53);
               q = a div u;
               r = a mod u;
               q' = (if u < 2 * r \<or> (2 * r = u \<and> odd q) then q + 1 else q)
           in (if x < 0 then - (q' * u) else q' * u))"

definition f64_add :: "int \<Rightarrow> int \<Rightarrow> int" where
  "f64_add a b = f64_round (a + b)"

definition f64_sub :: "int \<Rightarrow> int \<Rightarrow> int" where
  "f64_sub a b = f64_round (a - b)"

text \<open>
  \<^verbatim>\<open>repr\<close> of a double with an integral value: below \<open>10^16\<close> the digits followed by
  \<^verbatim>\<open>.0\<close>; from \<open>10^16\<close> on the scientific form with the fewest digits that read back as the
  same double.
\<close>

function digits :: "int \<Rightarrow> string" where
  "digits n =
     (if n < 10 then [char_of (48 + nat n)]
      else digits (n div 10) @ [char_of (48 + nat (n mod 10))])"
  by pat_completeness auto

termination
  by (relation "measure nat") auto

declare digits.simps [simp del]

definition round_to_digits :: "int \<Rightarrow> nat \<Rightarrow> int" where
  "round_to_digits a n =
     (let p = 10 ^ (length (digits a) - n); q = a div p; r = a mod p
      in if p < 2 * r \<or> (2 * r = p \<and> odd q) then q + 1 else q)"

fun shortest_digits :: "nat \<Rightarrow> nat \<Rightarrow> int \<Rightarrow> nat" where
  "shortest_digits 0 n a = n"
| "shortest_digits (Suc fuel) n a =
     (if f64_round (round_to_digits a n * 10 ^ (length (digits a) - n)) = a then n
      else shortest_digits fuel (Suc n) a)"

definition float_repr :: "int \<Rightarrow> string" where
  "float_repr x =
     (let a = \<bar>x\<bar>; sign = (if x < 0 then ''-'' else []) in
      if a < 10 ^ 16 then sign @ digits a @ ''.0''
      else let n = shortest_digits 16 1 a;
               ds = digits (round_to_digits a n);
               e = int (length (digits a)) - 1 + (int (length ds) - int n);
               frac = rev (dropWhile (\<lambda>c. c = CHR ''0'') (rev (tl ds)))
           in sign @ [hd ds] @ (if frac = [] then [] else CHR ''.'' # frac) @ ''e+'' @ digits e)"

text \<open>\<^verbatim>\<open>str(v)\<close> of a cell value, as \<^verbatim>\<open>astype(str)\<close> applies it.\<close>

fun py_str :: "cell \<Rightarrow> string" where
  "py_str (Num i) = str_of_int i"
| "py_str (Flt x) = float_repr x"
| "py_str (Str s) = s"
| "py_str (Bool b) = (if b then ''True'' else ''False'')"
| "py_str Missing = ''nan''"

text \<open>The value of a numeric cell, and the conversion of an \<^verbatim>\<open>int64\<close> cell to \<^verbatim>\<open>float64\<close>.\<close>

definition measure_val :: "cell \<Rightarrow> int" where
  "measure_val c = (case c of Num i \<Rightarrow> i | Flt x \<Rightarrow> x | _ \<Rightarrow> 0)"

definition int_to_float :: "cell \<Rightarrow> cell" where
  "int_to_float c = (case c of Num i \<Rightarrow> Flt (f64_round i) | _ \<Rightarrow> c)"

definition is_Num :: "cell \<Rightarrow> bool" where
  "is_Num c = (case c of Num _ \<Rightarrow> True | _ \<Rightarrow> False)"

definition is_Flt :: "cell \<Rightarrow> bool" where
  "is_Flt c = (case c of Flt _ \<Rightarrow> True | _ \<Rightarrow> False)"

definition is_Str :: "cell \<Rightarrow> bool" where
  "is_Str c = (case c of Str _ \<Rightarrow> True | _ \<Rightarrow> False)"

section \<open>Ordering of cells\<close>

text \<open>
  \<^verbatim>\<open>groupby\<close> returns its groups sorted by key. Numbers compare by value and strings by
  code point; the order between values of different kinds (numbers, then truth values,
  then strings, then missing) is fixed here so that sorting is total.
\<close>

fun cell_rank :: "cell \<Rightarrow> nat \<times> int \<times> string" where
  "cell_rank (Num i) = (0, i, [])"
| "cell_rank (Flt x) = (0, x, ''.0'')"
| "cell_rank (Bool b) = (1, (if b then 1 else 0), [])"
| "cell_rank (Str s) = (2, 0, s)"
| "cell_rank Missing = (3, 0, [])"

instantiation cell :: linorder
begin

definition less_eq_cell :: "cell \<Rightarrow> cell \<Rightarrow> bool" where
  "less_eq_cell a b = (cell_rank a \<le> cell_rank b)"

definition less_cell :: "cell \<Rightarrow> cell \<Rightarrow> bool" where
  "less_cell a b = (cell_rank a < cell_rank b)"

instance
proof
  fix x y z :: cell
  show "(x < y) = (x \<le> y \<and> \<not> y \<le> x)"
    unfolding less_eq_cell_def less_cell_def by (rule less_le_not_le)
  show "x \<le> x"
    unfolding less_eq_cell_def by simp
  show "x \<le> y \<Longrightarrow> y \<le> z \<Longrightarrow> x \<le> z"
    unfolding less_eq_cell_def by (rule order_trans)
  show "x \<le> y \<Longrightarrow> y \<le> x \<Longrightarrow> x = y"
  proof -
    assume "x \<le> y" and "y \<le> x"
    then have "cell_rank x = cell_rank y"
      unfolding less_eq_cell_def by (rule antisym)
    then show "x = y"
      by (cases x; cases y) (auto split: if_splits)
  qed
  show "x \<le> y \<or> y \<le> x"
    unfolding less_eq_cell_def by (rule linear)
qed

end

section \<open>Data frames\<close>

text \<open>
  A data frame is its ordered column labels and its rows; a row gives the cell under each
  label. Column labels are strings. The two input sheets also carry the dtype of each
  column, which the dimension and measure selection reads: \<open>DObject\<close> is pandas'
  \<^verbatim>\<open>object\<close>, \<open>DInt64\<close> and \<open>DFloat64\<close> are the two dtypes below \<^verbatim>\<open>np.number\<close> that
  pandas gives to a numeric column (\<^verbatim>\<open>float64\<close> as soon as the column has a blank),
  \<open>DOther\<close> the rest (\<^verbatim>\<open>bool\<close>, \<^verbatim>\<open>datetime64\<close>). Frames derived inside the program
  carry no dtype: there the kind of a column is read from its cells.
\<close>

datatype dtype = DObject | DInt64 | DFloat64 | DOther

text \<open>\<^verbatim>\<open>np.issubdtype(t, np.number)\<close>\<close>

definition is_number :: "dtype \<Rightarrow> bool" where
  "is_number t = (t = DInt64 \<or> t = DFloat64)"

type_synonym row = "string \<Rightarrow> cell"

record table =
  cols :: "string list"
  rows :: "row list"

record dataset = table +
  dtype_of :: "string \<Rightarrow> dtype"

text \<open>\<^verbatim>\<open>df[name] = f(row)\<close>, row by row: an existing column is overwritten in place, a new one
  is appended.\<close>

definition set_col :: "string \<Rightarrow> (row \<Rightarrow> cell) \<Rightarrow> table \<Rightarrow> table" where
  "set_col name f t =
     \<lparr>cols = (if name \<in> set (cols t) then cols t else cols t @ [name]),
      rows = map (\<lambda>r. r(name := f r)) (rows t)\<rparr>"

text \<open>\<^verbatim>\<open>df[name] = series\<close>, the series given as the list of its values, one for each row.\<close>

definition set_col_values :: "string \<Rightarrow> cell list \<Rightarrow> table \<Rightarrow> table" where
  "set_col_values name vs t =
     \<lparr>cols = (if name \<in> set (cols t) then cols t else cols t @ [name]),
      rows = map (\<lambda>(r, v). r(name := v)) (zip (rows t) vs)\<rparr>"

text \<open>\<^verbatim>\<open>df[name]\<close> as the list of its values.\<close>

definition col_values :: "string \<Rightarrow> table \<Rightarrow> cell list" where
  "col_values name t = map (\<lambda>r. r name) (rows t)"

text \<open>\<^verbatim>\<open>dict(zip(ks, vs))\<close>: a later pair overwrites an earlier one with the same key.\<close>

definition dict_zip :: "cell list \<Rightarrow> cell list \<Rightarrow> (cell \<rightharpoonup> cell)" where
  "dict_zip ks vs = map_of (rev (zip ks vs))"

text \<open>\<^verbatim>\<open>Series.map(d)\<close> at one value: a key that is not in the dictionary gives NaN.\<close>

definition series_map :: "(cell \<rightharpoonup> cell) \<Rightarrow> cell \<Rightarrow> cell" where
  "series_map d k = (case d k of Some v \<Rightarrow> v | None \<Rightarrow> Missing)"

section \<open>The reconciliation: \<^verbatim>\<open>generate_validation_report\<close>\<close>

subsection \<open>Dimension selection (lines 58 to 72)\<close>

definition dims_step1 :: "dataset \<Rightarrow> dataset \<Rightarrow> string list" where
  "dims_step1 cognos_df pbi_df =
     filter (\<lambda>col. col \<in> set (cols pbi_df) \<and>
                   (dtype_of cognos_df col = DObject \<or> py_in ''_id'' (py_lower col) \<or>
                    py_in ''_key'' (py_lower col) \<or> py_in ''_ID'' col \<or> py_in ''_KEY'' col))
       (cols cognos_df)"

definition dims_step2 :: "dataset \<Rightarrow> dataset \<Rightarrow> string list" where
  "dims_step2 cognos_df pbi_df =
     filter (\<lambda>col. col \<in> set (cols pbi_df) \<and> \<not> is_number (dtype_of cognos_df col)) (cols cognos_df)"

definition dims_step3 :: "dataset \<Rightarrow> dataset \<Rightarrow> string list" where
  "dims_step3 cognos_df pbi_df = filter (\<lambda>col. col \<in> set (cols pbi_df)) (cols cognos_df)"

text \<open>The selected dimensions, and whether \<^verbatim>\<open>st.warning\<close> was called on the way.\<close>

definition select_dims :: "dataset \<Rightarrow> dataset \<Rightarrow> string list \<times> bool" where
  "select_dims cognos_df pbi_df =
     (let dims = dims_step1 cognos_df pbi_df in
      if dims \<noteq> [] then (dims, False)
      else let dims = dims_step2 cognos_df pbi_df in
        if dims \<noteq> [] then (dims, False)
        else (dims_step3 cognos_df pbi_df, True))"

subsection \<open>Filling missing dimension values (lines 74 and 75)\<close>

text \<open>
  \<^verbatim>\<open>df[dims] = df[dims].fillna('NAN')\<close> assigns into the caller's frame. A column that
  receives the string becomes an \<^verbatim>\<open>object\<close> column; a column with nothing to fill keeps
  its dtype.
\<close>

definition fillna_dims :: "string list \<Rightarrow> dataset \<Rightarrow> dataset" where
  "fillna_dims dims df =
     df\<lparr>rows := map (\<lambda>r col. if col \<in> set dims \<and> r col = Missing then Str ''NAN'' else r col) (rows df),
        dtype_of := (\<lambda>col. if col \<in> set dims \<and> (\<exists>r \<in> set (rows df). r col = Missing)
                           then DObject else dtype_of df col)\<rparr>"

subsection \<open>Measures (lines 77 to 79)\<close>

definition numeric_measures :: "string list \<Rightarrow> dataset \<Rightarrow> string list" where
  "numeric_measures dims df =
     filter (\<lambda>col. col \<notin> set dims \<and> is_number (dtype_of df col)) (cols df)"

text \<open>
  \<^verbatim>\<open>list(set(a) & set(b))\<close> and \<^verbatim>\<open>list(set(a) | set(b))\<close>: Python fixes the elements of
  the list, not their order. The order is a parameter of the model, a function that may
  rearrange the list it is given in any way.
\<close>

definition iteration_order :: "('a list \<Rightarrow> 'a list) \<Rightarrow> bool" where
  "iteration_order f = (\<forall>xs. mset (f xs) = mset xs)"

definition set_inter_list :: "('a list \<Rightarrow> 'a list) \<Rightarrow> 'a list \<Rightarrow> 'a list \<Rightarrow> 'a list" where
  "set_inter_list ord xs ys = ord (filter (\<lambda>x. x \<in> set ys) (remdups xs))"

definition set_union_list :: "('a list \<Rightarrow> 'a list) \<Rightarrow> 'a list \<Rightarrow> 'a list \<Rightarrow> 'a list" where
  "set_union_list ord xs ys = ord (remdups (xs @ ys))"

subsection \<open>Aggregation (lines 81 and 82)\<close>

text \<open>
  \<^verbatim>\<open>df.groupby(dims)[measures].sum().reset_index()\<close>: one row per distinct tuple of
  dimension values, in ascending order of the tuple; a row with a missing dimension value
  belongs to no group. The sum of a group keeps the dtype of the measure column. An
  \<^verbatim>\<open>int64\<close> column is added up in \<^verbatim>\<open>int64\<close>, wrapping around. A \<^verbatim>\<open>float64\<close> column is
  added up in the order of the rows, blanks left out, by the compensated summation of
  pandas' \<^verbatim>\<open>group_sum\<close>: \<^verbatim>\<open>y = val - comp; t = sum + y; comp = t - sum - y; sum = t\<close>,
  each operation rounded.
\<close>

definition kahan_step :: "int \<times> int \<Rightarrow> int \<Rightarrow> int \<times> int" where
  "kahan_step sc val =
     (let y = f64_sub val (snd sc);
          t = f64_add (fst sc) y
      in (t, f64_sub (f64_sub t (fst sc)) y))"

definition group_sum :: "dtype \<Rightarrow> cell list \<Rightarrow> cell" where
  "group_sum dt cs =
     (if dt = DFloat64
      then Flt (fst (foldl kahan_step (0, 0) (map measure_val (filter (\<lambda>c. c \<noteq> Missing) cs))))
      else Num (wrap64 (\<Sum>c\<leftarrow>cs. measure_val c)))"

definition group_keys :: "string list \<Rightarrow> row list \<Rightarrow> cell list list" where
  "group_keys dims rs = sort (remdups (filter (\<lambda>k. Missing \<notin> set k) (map (\<lambda>r. map r dims) rs)))"

definition agg_row ::
  "string list \<Rightarrow> string list \<Rightarrow> (string \<Rightarrow> dtype) \<Rightarrow> row list \<Rightarrow> cell list \<Rightarrow> row" where
  "agg_row dims all_measures dt grp k =
     (\<lambda>col. case map_of (zip dims k) col of
              Some v \<Rightarrow> v
            | None \<Rightarrow> if col \<in> set all_measures then group_sum (dt col) (map (\<lambda>r. r col) grp)
                      else Missing)"

definition groupby_sum :: "string list \<Rightarrow> string list \<Rightarrow> dataset \<Rightarrow> table" where
  "groupby_sum dims all_measures df =
     \<lparr>cols = dims @ all_measures,
      rows = map (\<lambda>k. agg_row dims all_measures (dtype_of df)
                        (filter (\<lambda>r. map r dims = k) (rows df)) k)
               (group_keys dims (rows df))\<rparr>"

subsection \<open>Unified keys (lines 84 to 87)\<close>

text \<open>
  \<^verbatim>\<open>agg[dims].astype(str).agg('-'.join, axis=1).str.upper()\<close>. On a frame without rows
  \<^verbatim>\<open>.agg(..., axis=1)\<close> returns a frame, not a series, and a frame has no \<^verbatim>\<open>.str\<close>: the
  line raises AttributeError.
\<close>

definition unique_key_of :: "string list \<Rightarrow> row \<Rightarrow> cell" where
  "unique_key_of dims r = Str (py_upper (py_join ''-'' (map (\<lambda>d. py_str (r d)) dims)))"

definition add_unique_key :: "string list \<Rightarrow> table \<Rightarrow> error + table" where
  "add_unique_key dims agg =
     (if rows agg = [] then Inl AttributeError
      else Inr (set_col ''unique_key'' (unique_key_of dims) agg))"

definition unified_keys :: "(cell list \<Rightarrow> cell list) \<Rightarrow> table \<Rightarrow> table \<Rightarrow> cell list" where
  "unified_keys key_order cognos_agg pbi_agg =
     set_union_list key_order (col_values ''unique_key'' cognos_agg) (col_values ''unique_key'' pbi_agg)"

subsection \<open>The report (lines 87 to 107)\<close>

definition init_report :: "cell list \<Rightarrow> table" where
  "init_report keys =
     \<lparr>cols = [''unique_key''], rows = map (\<lambda>k. (\<lambda>_. Missing)(''unique_key'' := k)) keys\<rparr>"

text \<open>
  \<^verbatim>\<open>keys.map(dict(zip(agg['unique_key'], agg[name])))\<close>. At one key it gives the value the
  dictionary holds for it, NaN if it holds none. The resulting series has the dtype of the
  dictionary's values unless some key is not found: the NaN that enters then turns an
  \<^verbatim>\<open>int64\<close> series into a \<^verbatim>\<open>float64\<close> one, each integer becoming the double nearest to it.
\<close>

definition lookup_col :: "table \<Rightarrow> string \<Rightarrow> cell \<Rightarrow> cell" where
  "lookup_col agg name key =
     series_map (dict_zip (col_values ''unique_key'' agg) (col_values name agg)) key"

definition promoted :: "table \<Rightarrow> string \<Rightarrow> cell list \<Rightarrow> bool" where
  "promoted agg name keys =
     ((\<exists>k \<in> set keys. dict_zip (col_values ''unique_key'' agg) (col_values name agg) k = None) \<and>
      (\<forall>k \<in> set (col_values ''unique_key'' agg). is_Num (lookup_col agg name k)))"

definition lookup_series :: "table \<Rightarrow> string \<Rightarrow> cell list \<Rightarrow> cell list" where
  "lookup_series agg name keys =
     map (\<lambda>k. if promoted agg name keys then int_to_float (lookup_col agg name k)
              else lookup_col agg name k) keys"

text \<open>
  \<^verbatim>\<open>s.fillna(other)\<close> for two series over the same rows: a blank of \<open>s\<close> takes the value
  of \<open>other\<close> in its row. A blank makes a numeric \<open>s\<close> a \<^verbatim>\<open>float64\<close> series, and it stays one
  when only numbers are filled in: the integers filled in become doubles.
\<close>

definition fillna_series :: "cell list \<Rightarrow> cell list \<Rightarrow> cell list" where
  "fillna_series s other =
     (let filled = map (\<lambda>(a, b). if a = Missing then b else a) (zip s other) in
      if Missing \<in> set s \<and> (\<forall>c \<in> set filled. is_Num c \<or> is_Flt c \<or> c = Missing)
      then map int_to_float filled else filled)"

text \<open>
  Lines 90 and 91 for one dimension: the column is first mapped from the Cognos
  aggregate, then its blanks are filled from the PBI aggregate; both lookups read the
  report's \<^verbatim>\<open>unique_key\<close> column as it is at that moment.
\<close>

definition add_dim :: "table \<Rightarrow> table \<Rightarrow> string \<Rightarrow> table \<Rightarrow> table" where
  "add_dim cognos_agg pbi_agg dim t =
     (let t1 = set_col_values dim (lookup_series cognos_agg dim (col_values ''unique_key'' t)) t
      in set_col_values dim
           (fillna_series (col_values dim t1)
              (lookup_series pbi_agg dim (col_values ''unique_key'' t1))) t1)"

definition presence_of :: "cell list \<Rightarrow> cell list \<Rightarrow> cell \<Rightarrow> cell" where
  "presence_of cognos_keys pbi_keys key =
     (if key \<in> set cognos_keys \<and> key \<in> set pbi_keys then Str ''Present in Both''
      else if key \<in> set cognos_keys then Str ''Present in Cognos''
      else Str ''Present in PBI'')"

definition add_presence :: "table \<Rightarrow> table \<Rightarrow> table \<Rightarrow> table" where
  "add_presence cognos_agg pbi_agg t =
     set_col ''presence''
       (\<lambda>r. presence_of (col_values ''unique_key'' cognos_agg) (col_values ''unique_key'' pbi_agg)
              (r ''unique_key'')) t"

text \<open>
  \<^verbatim>\<open>s.fillna(0)\<close>: in a \<^verbatim>\<open>float64\<close> series (doubles and blanks only) the blanks become
  \<^verbatim>\<open>0.0\<close>, elsewhere the integer 0.
\<close>

definition fillna0 :: "cell list \<Rightarrow> cell list" where
  "fillna0 s =
     map (\<lambda>c. if c = Missing
              then (if \<forall>x \<in> set s. is_Flt x \<or> x = Missing then Flt 0 else Num 0)
              else c) s"

text \<open>
  The difference of two series over the same rows. Two \<^verbatim>\<open>int64\<close> series subtract in
  \<^verbatim>\<open>int64\<close>, wrapping around; two numeric series of which one is \<^verbatim>\<open>float64\<close> subtract as
  doubles, the integers converted first; a series that holds anything else than numbers
  raises TypeError.
\<close>

definition series_sub :: "cell list \<Rightarrow> cell list \<Rightarrow> error + cell list" where
  "series_sub a b =
     (if (\<forall>c \<in> set a \<union> set b. is_Num c)
      then Inr (map (\<lambda>(x, y). Num (wrap64 (measure_val x - measure_val y))) (zip a b))
      else if (\<forall>c \<in> set a \<union> set b. is_Num c \<or> is_Flt c)
      then Inr (map (\<lambda>(x, y). Flt (f64_sub (measure_val (int_to_float x)) (measure_val (int_to_float y))))
                  (zip a b))
      else Inl TypeError)"

text \<open>Lines 100 to 102 for one measure.\<close>

definition add_measure :: "table \<Rightarrow> table \<Rightarrow> string \<Rightarrow> table \<Rightarrow> error + table" where
  "add_measure cognos_agg pbi_agg m t =
     (let t1 = set_col_values (m @ ''_Cognos'')
                 (lookup_series cognos_agg m (col_values ''unique_key'' t)) t;
          t2 = set_col_values (m @ ''_PBI'')
                 (lookup_series pbi_agg m (col_values ''unique_key'' t1)) t1
      in case series_sub (fillna0 (col_values (m @ ''_PBI'') t2))
                (fillna0 (col_values (m @ ''_Cognos'') t2)) of
           Inl e \<Rightarrow> Inl e
         | Inr ds \<Rightarrow> Inr (set_col_values (m @ ''_Diff'') ds t2))"

fun add_measures :: "table \<Rightarrow> table \<Rightarrow> string list \<Rightarrow> table \<Rightarrow> error + table" where
  "add_measures cognos_agg pbi_agg [] t = Inr t"
| "add_measures cognos_agg pbi_agg (m # ms) t =
     (case add_measure cognos_agg pbi_agg m t of
        Inl e \<Rightarrow> Inl e
      | Inr t' \<Rightarrow> add_measures cognos_agg pbi_agg ms t')"

definition measure_cols :: "string \<Rightarrow> string list" where
  "measure_cols m = [m @ ''_Cognos'', m @ ''_PBI'', m @ ''_Diff'']"

definition column_order :: "string list \<Rightarrow> string list \<Rightarrow> string list" where
  "column_order dims all_measures =
     [''unique_key''] @ dims @ [''presence''] @ concat (map measure_cols all_measures)"

text \<open>\<^verbatim>\<open>df[column_order]\<close>: every label asked for is a column of the frame at that point.\<close>

definition select_cols :: "string list \<Rightarrow> table \<Rightarrow> table" where
  "select_cols names t = t\<lparr>cols := names\<rparr>"

definition build_report ::
  "(cell list \<Rightarrow> cell list) \<Rightarrow> string list \<Rightarrow> string list \<Rightarrow> table \<Rightarrow> table \<Rightarrow> error + table" where
  "build_report key_order dims all_measures cognos_agg pbi_agg =
     (let t0 = init_report (unified_keys key_order cognos_agg pbi_agg);
          t1 = foldl (\<lambda>t dim. add_dim cognos_agg pbi_agg dim t) t0 dims;
          t2 = add_presence cognos_agg pbi_agg t1
      in case add_measures cognos_agg pbi_agg all_measures t2 of
           Inl e \<Rightarrow> Inl e
         | Inr t3 \<Rightarrow> Inr (select_cols (column_order dims all_measures) t3))"

subsection \<open>The whole function\<close>

text \<open>
  The function returns the report, the two aggregates and the dimensions. The model also
  returns the two input frames as the call leaves them, and whether the warning of line 67
  was shown.
\<close>

record report_output =
  out_report :: table
  out_cognos_agg :: table
  out_pbi_agg :: table
  out_dims :: "string list"
  out_warned :: bool

definition all_measures_of ::
  "(string list \<Rightarrow> string list) \<Rightarrow> string list \<Rightarrow> dataset \<Rightarrow> dataset \<Rightarrow> string list" where
  "all_measures_of measure_order dims cognos_df pbi_df =
     set_inter_list measure_order (numeric_measures dims cognos_df) (numeric_measures dims pbi_df)"

definition generate_validation_report ::
  "(string list \<Rightarrow> string list) \<Rightarrow> (cell list \<Rightarrow> cell list) \<Rightarrow> dataset \<Rightarrow> dataset
     \<Rightarrow> (dataset \<times> dataset) \<times> (error + report_output)" where
  "generate_validation_report measure_order key_order cognos_df pbi_df =
     (let (dims, warned) = select_dims cognos_df pbi_df in
      if dims = [] then
        ((cognos_df, pbi_df), Inl (ValueError ''No common columns found to use as dimensions.''))
      else
        let cognos_df' = fillna_dims dims cognos_df;
            pbi_df' = fillna_dims dims pbi_df;
            all_measures = all_measures_of measure_order dims cognos_df' pbi_df'
        in ((cognos_df', pbi_df'),
            (case add_unique_key dims (groupby_sum dims all_measures cognos_df') of
               Inl e \<Rightarrow> Inl e
             | Inr cognos_agg \<Rightarrow>
                 (case add_unique_key dims (groupby_sum dims all_measures pbi_df') of
                    Inl e \<Rightarrow> Inl e
                  | Inr pbi_agg \<Rightarrow>
                      (case build_report key_order dims all_measures cognos_agg pbi_agg of
                         Inl e \<Rightarrow> Inl e
                       | Inr report \<Rightarrow>
                           Inr \<lparr>out_report = report, out_cognos_agg = cognos_agg,
                                out_pbi_agg = pbi_agg, out_dims = dims, out_warned = warned\<rparr>)))))"

section \<open>The summary: \<^verbatim>\<open>generate_diff_checker\<close>\<close>

fun map_err :: "('a \<Rightarrow> error + 'b) \<Rightarrow> 'a list \<Rightarrow> error + 'b list" where
  "map_err f [] = Inr []"
| "map_err f (x # xs) =
     (case f x of
        Inl e \<Rightarrow> Inl e
      | Inr y \<Rightarrow> (case map_err f xs of Inl e \<Rightarrow> Inl e | Inr ys \<Rightarrow> Inr (y # ys)))"

text \<open>
  \<^verbatim>\<open>Series.sum()\<close>: an \<^verbatim>\<open>int64\<close> column adds up in \<^verbatim>\<open>int64\<close>, wrapping around; a
  \<^verbatim>\<open>float64\<close> column adds up as doubles, blanks counting as 0 (from left to right here;
  NumPy adds a column of eight or more doubles in another order); truth values count as 0
  and 1; a column of strings only is concatenated; any other mixture raises TypeError.
\<close>

definition col_sum :: "cell list \<Rightarrow> error + cell" where
  "col_sum cs =
     (if \<forall>c \<in> set cs. is_Num c then Inr (Num (wrap64 (\<Sum>c\<leftarrow>cs. measure_val c)))
      else if \<forall>c \<in> set cs. is_Flt c \<or> c = Missing
      then Inr (Flt (foldl f64_add 0 (map measure_val cs)))
      else if \<forall>c \<in> set cs. (case c of Bool _ \<Rightarrow> True | _ \<Rightarrow> False)
      then Inr (Num (int (length (filter (\<lambda>c. c = Bool True) cs))))
      else if \<forall>c \<in> set cs. is_Str c then Inr (Str (concat (map py_str cs)))
      else Inl TypeError)"

text \<open>
  The summary frame has the two columns \<^verbatim>\<open>Diff Column Name\<close> and
  \<^verbatim>\<open>Sum of Difference\<close>; a row of it is the pair of its two cells. A frame without a
  \<^verbatim>\<open>presence\<close> column raises KeyError at line 133. Under a label that the frame carries
  twice pandas finds a frame, not a series: for the label \<^verbatim>\<open>presence\<close> the test of line
  133 then runs over the labels of that frame and is true whatever the rows hold. (A
  label ending in \<^verbatim>\<open>_Diff\<close> that the frame carries twice is read here as the one column it
  names; pandas puts a series into the cell.)
\<close>

definition generate_diff_checker :: "table \<Rightarrow> error + (string \<times> cell) list" where
  "generate_diff_checker validation_report =
     (let diff_columns = filter (\<lambda>col. py_endswith col ''_Diff'') (cols validation_report) in
      case map_err (\<lambda>col. col_sum (col_values col validation_report)) diff_columns of
        Inl e \<Rightarrow> Inl e
      | Inr sums \<Rightarrow>
          if ''presence'' \<notin> set (cols validation_report) then Inl KeyError
          else
            Inr (zip diff_columns sums @
                 [(''All rows present in both'',
                   Str (if 1 < length (filter (\<lambda>col. col = ''presence'') (cols validation_report)) \<or>
                           (\<forall>r \<in> set (rows validation_report). r ''presence'' = Str ''Present in Both'')
                        then ''Yes'' else ''No''))]))"

section \<open>The specification's wording of the selections\<close>

text \<open>
  The columns the two sheets share, and the three stages of the dimension selection as
  the specification words them: textual or named like an id or a key (in any letter
  case); else not numeric; else every shared column, with a warning.
\<close>

definition shared_columns :: "dataset \<Rightarrow> dataset \<Rightarrow> string list" where
  "shared_columns cognos_df pbi_df = filter (\<lambda>col. col \<in> set (cols pbi_df)) (cols cognos_df)"

definition spec_dims_first :: "dataset \<Rightarrow> dataset \<Rightarrow> string list" where
  "spec_dims_first cognos_df pbi_df =
     filter (\<lambda>col. dtype_of cognos_df col = DObject \<or> py_in ''_id'' (py_lower col) \<or>
                   py_in ''_key'' (py_lower col))
       (shared_columns cognos_df pbi_df)"

definition spec_dims_second :: "dataset \<Rightarrow> dataset \<Rightarrow> string list" where
  "spec_dims_second cognos_df pbi_df =
     filter (\<lambda>col. \<not> is_number (dtype_of cognos_df col)) (shared_columns cognos_df pbi_df)"

definition spec_select_dims :: "dataset \<Rightarrow> dataset \<Rightarrow> string list \<times> bool" where
  "spec_select_dims cognos_df pbi_df =
     (if spec_dims_first cognos_df pbi_df \<noteq> [] then (spec_dims_first cognos_df pbi_df, False)
      else if spec_dims_second cognos_df pbi_df \<noteq> [] then (spec_dims_second cognos_df pbi_df, False)
      else (shared_columns cognos_df pbi_df, True))"

text \<open>The Measure Set in the specification's words: shared, outside the dimensions, numeric
  in both sheets.\<close>

definition spec_measure_set :: "string list \<Rightarrow> dataset \<Rightarrow> dataset \<Rightarrow> string list" where
  "spec_measure_set dims cognos_df pbi_df =
     filter (\<lambda>col. col \<notin> set dims \<and> is_number (dtype_of cognos_df col) \<and>
                   is_number (dtype_of pbi_df col))
       (shared_columns cognos_df pbi_df)"

section \<open>Example sheets\<close>

definition mk_row :: "(string \<times> cell) list \<Rightarrow> row" where
  "mk_row al = (\<lambda>col. case map_of al col of Some v \<Rightarrow> v | None \<Rightarrow> Missing)"

definition mk_dataset :: "(string \<times> dtype) list \<Rightarrow> (string \<times> cell) list list \<Rightarrow> dataset" where
  "mk_dataset cs rs =
     \<lparr>cols = map fst cs, rows = map mk_row rs,
      dtype_of = (\<lambda>col. case map_of cs col of Some t \<Rightarrow> t | None \<Rightarrow> DOther)\<rparr>"

definition mk_table :: "string list \<Rightarrow> cell list list \<Rightarrow> table" where
  "mk_table cs ls = \<lparr>cols = cs, rows = map (\<lambda>l. mk_row (zip cs l)) ls\<rparr>"

text \<open>The end-to-end example of the specification.\<close>

definition ex_source :: dataset where
  "ex_source = mk_dataset [(''Region'', DObject), (''Sales'', DInt64)]
     [[(''Region'', Str ''East''), (''Sales'', Num 100)],
      [(''Region'', Str ''West''), (''Sales'', Num 50)]]"

definition ex_target :: dataset where
  "ex_target = mk_dataset [(''Region'', DObject), (''Sales'', DInt64)]
     [[(''Region'', Str ''east''), (''Sales'', Num 90)],
      [(''Region'', Str ''North''), (''Sales'', Num 20)]]"

text \<open>Two sheets whose shared text column is itself called \<^verbatim>\<open>unique_key\<close>.\<close>

definition ex_key_source :: dataset where
  "ex_key_source = mk_dataset [(''unique_key'', DObject), (''Sales'', DInt64)]
     [[(''unique_key'', Str ''A''), (''Sales'', Num 1)]]"

definition ex_key_target :: dataset where
  "ex_key_target = mk_dataset [(''unique_key'', DObject), (''Sales'', DInt64)]
     [[(''unique_key'', Str ''B''), (''Sales'', Num 2)]]"

text \<open>A sheet whose only column is a text column called \<^verbatim>\<open>Cust_Diff\<close>.\<close>

definition ex_diff_sheet :: dataset where
  "ex_diff_sheet = mk_dataset [(''Cust_Diff'', DObject)] [[(''Cust_Diff'', Str ''A'')]]"

text \<open>Two sheets without a common column.\<close>

definition ex_only_a :: dataset where
  "ex_only_a = mk_dataset [(''a'', DObject)] [[(''a'', Str ''x'')]]"

definition ex_only_b :: dataset where
  "ex_only_b = mk_dataset [(''b'', DObject)] [[(''b'', Str ''x'')]]"

text \<open>A target whose rows \<^verbatim>\<open>EAST\<close> and \<^verbatim>\<open>east\<close> collide on one key, a row with a blank
  region, and a source with the region \<^verbatim>\<open>East\<close>.\<close>

definition ex_one_east :: dataset where
  "ex_one_east = mk_dataset [(''Region'', DObject), (''Sales'', DInt64)]
     [[(''Region'', Str ''East''), (''Sales'', Num 100)]]"

definition ex_two_easts :: dataset where
  "ex_two_easts = mk_dataset [(''Region'', DObject), (''Sales'', DInt64)]
     [[(''Region'', Str ''EAST''), (''Sales'', Num 90)],
      [(''Region'', Str ''east''), (''Sales'', Num 20)],
      [(''Region'', Missing), (''Sales'', Num 7)]]"

text \<open>A sheet that has its header row and no row of data: every column of it is an
  \<^verbatim>\<open>object\<close> column.\<close>

definition ex_header_only :: dataset where
  "ex_header_only = mk_dataset [(''Region'', DObject), (''Sales'', DObject)] []"

text \<open>A sheet with a \<^verbatim>\<open>float64\<close> measure, and the same sheet with its last two rows
  exchanged.\<close>

definition ex_float_rows :: dataset where
  "ex_float_rows = mk_dataset [(''Region'', DObject), (''Sales'', DFloat64)]
     [[(''Region'', Str ''East''), (''Sales'', Flt 10000000000000000)],
      [(''Region'', Str ''East''), (''Sales'', Flt 1)],
      [(''Region'', Str ''East''), (''Sales'', Flt (- 10000000000000000))]]"

definition ex_float_rows_permuted :: dataset where
  "ex_float_rows_permuted = mk_dataset [(''Region'', DObject), (''Sales'', DFloat64)]
     [[(''Region'', Str ''East''), (''Sales'', Flt 10000000000000000)],
      [(''Region'', Str ''East''), (''Sales'', Flt (- 10000000000000000))],
      [(''Region'', Str ''East''), (''Sales'', Flt 1)]]"

text \<open>The same two sheets with an \<^verbatim>\<open>int64\<close> measure.\<close>

definition ex_int_rows :: dataset where
  "ex_int_rows = mk_dataset [(''Region'', DObject), (''Sales'', DInt64)]
     [[(''Region'', Str ''East''), (''Sales'', Num 10000000000000000)],
      [(''Region'', Str ''East''), (''Sales'', Num 1)],
      [(''Region'', Str ''East''), (''Sales'', Num (- 10000000000000000))]]"

text \<open>The two aggregates that lines 81 to 85 build from \<open>ex_one_east\<close> and
  \<open>ex_two_easts\<close>, and the second one with other cells in its first row.\<close>

definition ex_agg_one_east :: table where
  "ex_agg_one_east = mk_table [''Region'', ''Sales'', ''unique_key'']
     [[Str ''East'', Num 100, Str ''EAST'']]"

definition ex_agg_two_easts :: table where
  "ex_agg_two_easts = mk_table [''Region'', ''Sales'', ''unique_key'']
     [[Str ''EAST'', Num 90, Str ''EAST''],
      [Str ''NAN'', Num 7, Str ''NAN''],
      [Str ''east'', Num 20, Str ''EAST'']]"

section \<open>Reading the aggregates and printing frames\<close>

text \<open>The value that the function binds to \<^verbatim>\<open>dims\<close>, as a function of its two arguments.\<close>

definition the_dims :: "dataset \<Rightarrow> dataset \<Rightarrow> string list" where
  "the_dims cognos_df pbi_df = fst (select_dims cognos_df pbi_df)"

text \<open>The last row of an aggregate that carries a given key, if there is one.\<close>

definition last_with_key :: "table \<Rightarrow> cell \<Rightarrow> row option" where
  "last_with_key agg key =
     (case filter (\<lambda>a. a ''unique_key'' = key) (rows agg) of [] \<Rightarrow> None | rs \<Rightarrow> Some (last rs))"

text \<open>A row of an aggregate is shadowed when a later row of it carries the same key.\<close>

definition shadowed :: "table \<Rightarrow> nat \<Rightarrow> bool" where
  "shadowed agg i =
     (i < length (rows agg) \<and>
      (rows agg ! i) ''unique_key'' \<in> set (col_values ''unique_key'' (agg\<lparr>rows := drop (Suc i) (rows agg)\<rparr>)))"

text \<open>A frame as its header and its lines, and the frames a call returns printed that way.\<close>

definition print_table :: "table \<Rightarrow> string list \<times> cell list list" where
  "print_table t = (cols t, map (\<lambda>r. map r (cols t)) (rows t))"

definition reconcile_printed ::
  "(string list \<Rightarrow> string list) \<Rightarrow> (cell list \<Rightarrow> cell list) \<Rightarrow> dataset \<Rightarrow> dataset
     \<Rightarrow> error + (string list \<times> cell list list) \<times> (string list \<times> cell list list) \<times> (string list \<times> cell list list)" where
  "reconcile_printed measure_order key_order cognos_df pbi_df =
     (case snd (generate_validation_report measure_order key_order cognos_df pbi_df) of
        Inl e \<Rightarrow> Inl e
      | Inr out \<Rightarrow>
          Inr (print_table (out_report out), print_table (out_cognos_agg out), print_table (out_pbi_agg out)))"

definition summary_printed ::
  "(string list \<Rightarrow> string list) \<Rightarrow> (cell list \<Rightarrow> cell list) \<Rightarrow> dataset \<Rightarrow> dataset
     \<Rightarrow> error + (string \<times> cell) list" where
  "summary_printed measure_order key_order cognos_df pbi_df =
     (case snd (generate_validation_report measure_order key_order cognos_df pbi_df) of
        Inl e \<Rightarrow> Inl e
      | Inr out \<Rightarrow> generate_diff_checker (out_report out))"

text \<open>The lines of the report under a choice of its labels.\<close>

definition report_lines ::
  "string list \<Rightarrow> (string list \<Rightarrow> string list) \<Rightarrow> (cell list \<Rightarrow> cell list) \<Rightarrow> dataset \<Rightarrow> dataset
     \<Rightarrow> error + cell list list" where
  "report_lines names measure_order key_order cognos_df pbi_df =
     (case snd (generate_validation_report measure_order key_order cognos_df pbi_df) of
        Inl e \<Rightarrow> Inl e
      | Inr out \<Rightarrow> Inr (map (\<lambda>r. map r names) (rows (out_report out))))"

text \<open>The summary that follows a report, if there is a report.\<close>

definition summary_of :: "error + table \<Rightarrow> error + (string \<times> cell) list" where
  "summary_of report = (case report of Inl e \<Rightarrow> Inl e | Inr t \<Rightarrow> generate_diff_checker t)"

text \<open>One admissible iteration order: the elements as they were listed.\<close>

definition as_listed :: "'a list \<Rightarrow> 'a list" where
  "as_listed xs = xs"

section \<open>Properties of the value normalizer\<close>

lemma strip_leading_zeros_00045: "strip_leading_zeros (Str ''00045'') = Inr (Num 45)"
  by (simp add: strip_leading_zeros_def py_isdigit_def lstrip0_def py_strip_def py_isspace_def
      py_int_def int_isspace_def py_isdigit_char_def decimal_def digit_val_def)

lemma strip_leading_zeros_12A3: "strip_leading_zeros (Str ''12A3'') = Inr (Str ''12A3'')"
  by (simp add: strip_leading_zeros_def py_isdigit_def lstrip0_def py_strip_def py_isspace_def
      py_isdigit_char_def)

text \<open>A text that \<^verbatim>\<open>strip()\<close> frees of a separator the conversion does not accept: the
  guard of line 11 holds and \<^verbatim>\<open>int\<close> raises.\<close>

lemma strip_leading_zeros_separator:
  "strip_leading_zeros (Str [char_of (28 :: nat), CHR ''0'', CHR ''5'']) =
     Inl (ValueError ''invalid literal for int()'')"
  by code_simp

lemma strip_leading_zeros_not_text:
  "(\<And>s. val \<noteq> Str s) \<Longrightarrow> strip_leading_zeros val = Inr val"
  by (cases val) (auto simp: strip_leading_zeros_def)

text \<open>
  Claim C2. A text of digits with leading zeros should become the integer without them,
  and a text of zeros only should become the integer 0. On \<^verbatim>\<open>"000"\<close> the guard of line 11
  strips every character before it asks \<^verbatim>\<open>isdigit()\<close>, which is false on the empty string,
  so the function returns the text \<^verbatim>\<open>"000"\<close> as it came and line 12 with its
  \<^verbatim>\<open>or "0"\<close> is never reached.
\<close>

theorem strip_leading_zeros_all_zeros_unchanged:
  "strip_leading_zeros (Str ''000'') = Inr (Str ''000'')"
  by (simp add: strip_leading_zeros_def py_isdigit_def lstrip0_def py_strip_def py_isspace_def)

section \<open>Properties of the dimension selection\<close>

lemma py_in_map: "py_in sub s \<Longrightarrow> py_in (map f sub) (map f s)"
proof (induction s)
  case Nil
  then show ?case by simp
next
  case (Cons c s)
  from Cons.prems have "take (length sub) (c # s) = sub \<or> py_in sub s" by simp
  then show ?case
  proof
    assume "take (length sub) (c # s) = sub"
    then have "map f (take (length sub) (c # s)) = map f sub" by simp
    then have "take (length (map f sub)) (map f (c # s)) = map f sub"
      by (simp only: take_map length_map)
    then show ?thesis by (simp del: take_Suc_Cons)
  next
    assume "py_in sub s"
    then show ?thesis using Cons.IH by simp
  qed
qed

lemma lower_ID: "map py_lower_char ''_ID'' = ''_id''"
  by code_simp

lemma lower_KEY: "map py_lower_char ''_KEY'' = ''_key''"
  by code_simp

lemma py_in_upper_id: "py_in ''_ID'' col \<Longrightarrow> py_in ''_id'' (py_lower col)"
  using py_in_map [of "''_ID''" col py_lower_char] by (simp only: lower_ID py_lower_def)

lemma py_in_upper_key: "py_in ''_KEY'' col \<Longrightarrow> py_in ''_key'' (py_lower col)"
  using py_in_map [of "''_KEY''" col py_lower_char] by (simp only: lower_KEY py_lower_def)

lemma dims_step1_spec: "dims_step1 c p = spec_dims_first c p"
  unfolding dims_step1_def spec_dims_first_def shared_columns_def filter_filter
  by (rule filter_cong) (auto dest: py_in_upper_id py_in_upper_key)

lemma dims_step2_spec: "dims_step2 c p = spec_dims_second c p"
  unfolding dims_step2_def spec_dims_second_def shared_columns_def filter_filter
  by (rule filter_cong) auto

lemma dims_step3_spec: "dims_step3 c p = shared_columns c p"
  by (simp add: dims_step3_def shared_columns_def)

lemma select_dims_spec: "select_dims c p = spec_select_dims c p"
  by (simp add: select_dims_def spec_select_dims_def Let_def dims_step1_spec dims_step2_spec dims_step3_spec)

lemma select_dims_subset: "set (fst (select_dims c p)) \<subseteq> set (shared_columns c p)"
  by (auto simp: select_dims_spec spec_select_dims_def spec_dims_first_def spec_dims_second_def)

lemma select_dims_nonempty: "shared_columns c p \<noteq> [] \<Longrightarrow> fst (select_dims c p) \<noteq> []"
  by (auto simp: select_dims_spec spec_select_dims_def)

lemma select_dims_empty: "shared_columns c p = [] \<Longrightarrow> fst (select_dims c p) = []"
  by (auto simp: select_dims_spec spec_select_dims_def spec_dims_first_def spec_dims_second_def)

lemma unique_key_is_dim:
  assumes "''unique_key'' \<in> set (shared_columns c p)"
  shows "''unique_key'' \<in> set (fst (select_dims c p))"
proof -
  have "py_in ''_key'' (py_lower ''unique_key'')"
    by (simp add: py_lower_def py_lower_char_def)
  with assms have "''unique_key'' \<in> set (spec_dims_first c p)"
    by (simp add: spec_dims_first_def)
  then show ?thesis
    by (auto simp: select_dims_spec spec_select_dims_def)
qed

lemmas ex_defs = mk_dataset_def mk_row_def ex_source_def ex_target_def ex_key_source_def
  ex_key_target_def ex_diff_sheet_def ex_only_a_def ex_only_b_def ex_one_east_def ex_two_easts_def
  ex_header_only_def ex_float_rows_def ex_float_rows_permuted_def ex_int_rows_def

text \<open>
  Claim C3. When the two sheets share a column, the dimension selection of the code is
  the ordered fallback of the specification, first non-empty stage winning: the shared
  columns that are textual or whose name contains \<^verbatim>\<open>_id\<close> or \<^verbatim>\<open>_key\<close> in any letter
  case; else the shared columns that are not numeric; else all shared columns with the
  warning. The result is a function of the two sheets and is never empty.
\<close>

theorem select_dims_ordered_fallback:
  "shared_columns cognos_df pbi_df \<noteq> [] \<Longrightarrow>
     select_dims cognos_df pbi_df = spec_select_dims cognos_df pbi_df \<and>
     fst (select_dims cognos_df pbi_df) \<noteq> []"
  by (simp add: select_dims_spec [symmetric] select_dims_nonempty)

theorem select_dims_ordered_fallback_witness:
  "shared_columns ex_source ex_target \<noteq> [] \<and>
   select_dims ex_source ex_target = spec_select_dims ex_source ex_target \<and>
   fst (select_dims ex_source ex_target) = [''Region'']"
proof -
  have h: "shared_columns ex_source ex_target \<noteq> []"
    by code_simp
  have "fst (spec_select_dims ex_source ex_target) = [''Region'']"
    by code_simp
  with select_dims_ordered_fallback [OF h] h show ?thesis by simp
qed

section \<open>Properties of the aggregation\<close>

lemma cols_fillna_dims [simp]: "cols (fillna_dims dims df) = cols df"
  by (simp add: fillna_dims_def)

lemma rows_fillna_dims:
  "rows (fillna_dims dims df) =
     map (\<lambda>r col. if col \<in> set dims \<and> r col = Missing then Str ''NAN'' else r col) (rows df)"
  by (simp add: fillna_dims_def)

lemma dtype_fillna_dims_other:
  "col \<notin> set dims \<Longrightarrow> dtype_of (fillna_dims dims df) col = dtype_of df col"
  by (simp add: fillna_dims_def)

lemma fillna_dims_no_missing:
  "r \<in> set (rows (fillna_dims dims df)) \<Longrightarrow> d \<in> set dims \<Longrightarrow> r d \<noteq> Missing"
  by (auto simp: rows_fillna_dims split: if_splits)

lemma fillna_dims_perm:
  assumes "mset (rows df') = mset (rows df)" "cols df' = cols df" "dtype_of df' = dtype_of df"
  shows "mset (rows (fillna_dims dims df')) = mset (rows (fillna_dims dims df))"
    and "dtype_of (fillna_dims dims df') = dtype_of (fillna_dims dims df)"
proof -
  show "mset (rows (fillna_dims dims df')) = mset (rows (fillna_dims dims df))"
    unfolding rows_fillna_dims by (simp add: assms(1))
  have "set (rows df') = set (rows df)"
    using assms(1) by (rule mset_eq_setD)
  then show "dtype_of (fillna_dims dims df') = dtype_of (fillna_dims dims df)"
    using assms(3) by (auto simp: fillna_dims_def fun_eq_iff)
qed

lemma group_keys_perm:
  assumes "mset rs' = mset rs"
  shows "group_keys dims rs' = group_keys dims rs"
proof -
  have "set rs' = set rs"
    using assms by (rule mset_eq_setD)
  then have "set (filter (\<lambda>k. Missing \<notin> set k) (map (\<lambda>r. map r dims) rs')) =
             set (filter (\<lambda>k. Missing \<notin> set k) (map (\<lambda>r. map r dims) rs))"
    by simp
  then show ?thesis
    unfolding group_keys_def by (simp only: sorted_list_of_set_sort_remdups [symmetric])
qed

lemma sum_list_perm:
  assumes "mset rs' = mset rs"
  shows "(\<Sum>r\<leftarrow>filter P rs'. f r) = (\<Sum>r\<leftarrow>filter P rs. (f r :: int))"
proof -
  have "mset (map f (filter P rs')) = mset (map f (filter P rs))"
    by (simp add: assms)
  then show ?thesis
    by (metis sum_mset_sum_list)
qed

lemma group_sum_perm:
  assumes "mset rs' = mset rs" "dt \<noteq> DFloat64"
  shows "group_sum dt (map (\<lambda>r. r col) (filter P rs')) = group_sum dt (map (\<lambda>r. r col) (filter P rs))"
proof -
  have "(\<Sum>r\<leftarrow>filter P rs'. measure_val (r col)) = (\<Sum>r\<leftarrow>filter P rs. measure_val (r col))"
    using assms(1) by (rule sum_list_perm)
  then show ?thesis
    using assms(2) by (simp add: group_sum_def comp_def)
qed

lemma group_keys_length: "k \<in> set (group_keys dims rs) \<Longrightarrow> length k = length dims"
  by (auto simp: group_keys_def)

lemma agg_row_dim_cell:
  assumes "length k = length dims" "d \<in> set dims"
  shows "agg_row dims ms dt grp k d = the (map_of (zip dims k) d)"
proof -
  from assms have "d \<in> fst ` set (zip dims k)"
    by (metis map_fst_zip list.set_map order_refl)
  then have "map_of (zip dims k) d \<noteq> None"
    by (simp only: map_of_eq_None_iff not_not)
  then obtain v where "map_of (zip dims k) d = Some v"
    by blast
  then show ?thesis
    by (simp add: agg_row_def)
qed

lemma agg_row_perm:
  assumes "mset rs' = mset rs" "dt col \<noteq> DFloat64"
  shows "agg_row dims ms dt (filter P rs') k col = agg_row dims ms dt (filter P rs) k col"
  unfolding agg_row_def by (simp only: group_sum_perm [OF assms])

lemma groupby_sum_perm:
  assumes "mset (rows df') = mset (rows df)" "dtype_of df' = dtype_of df"
    and "col \<in> set dims \<or> dtype_of df col \<noteq> DFloat64"
  shows "col_values col (groupby_sum dims ms df') = col_values col (groupby_sum dims ms df)"
proof -
  have keys: "group_keys dims (rows df') = group_keys dims (rows df)"
    using assms(1) by (rule group_keys_perm)
  have "agg_row dims ms (dtype_of df) (filter (\<lambda>r. map r dims = k) (rows df')) k col =
        agg_row dims ms (dtype_of df) (filter (\<lambda>r. map r dims = k) (rows df)) k col"
    if "k \<in> set (group_keys dims (rows df))" for k
  proof (cases "col \<in> set dims")
    case True
    from that have "length k = length dims"
      by (rule group_keys_length)
    then show ?thesis
      using True by (simp only: agg_row_dim_cell)
  next
    case False
    with assms(3) have "dtype_of df col \<noteq> DFloat64"
      by simp
    with assms(1) show ?thesis
      by (rule agg_row_perm)
  qed
  then show ?thesis
    unfolding groupby_sum_def col_values_def by (simp add: keys assms(2))
qed

text \<open>
  Claim C7, what fails. The totals of a \<^verbatim>\<open>float64\<close> measure depend on the order of the
  rows: the three rows \<open>10^16\<close>, \<open>1\<close>, \<open>- 10^16\<close> of one group add up to \<open>0\<close>, because
  \<open>10^16 + 1\<close> is not a double and rounds to \<open>10^16\<close>, and the same rows in the order
  \<open>10^16\<close>, \<open>- 10^16\<close>, \<open>1\<close> add up to \<open>1\<close>.
\<close>

theorem float_totals_depend_on_row_order:
  "mset (rows ex_float_rows_permuted) = mset (rows ex_float_rows) \<and>
   print_table (groupby_sum [''Region''] [''Sales''] (fillna_dims [''Region''] ex_float_rows)) =
     ([''Region'', ''Sales''], [[Str ''East'', Flt 0]]) \<and>
   print_table (groupby_sum [''Region''] [''Sales''] (fillna_dims [''Region''] ex_float_rows_permuted)) =
     ([''Region'', ''Sales''], [[Str ''East'', Flt 1]])"
proof -
  have "mset (rows ex_float_rows_permuted) = mset (rows ex_float_rows)"
    by (simp add: ex_defs)
  moreover have "print_table (groupby_sum [''Region''] [''Sales''] (fillna_dims [''Region''] ex_float_rows)) =
     ([''Region'', ''Sales''], [[Str ''East'', Flt 0]])"
    by code_simp
  moreover have "print_table (groupby_sum [''Region''] [''Sales''] (fillna_dims [''Region''] ex_float_rows_permuted)) =
     ([''Region'', ''Sales''], [[Str ''East'', Flt 1]])"
    by code_simp
  ultimately show ?thesis
    by simp
qed

text \<open>
  Claim C7, amended. For every rearrangement of the rows of its input sheet the
  aggregation (filling the blank dimension cells, grouping by the dimensions and summing
  the measures) gives the same groups in the same order, with the same dimension cells,
  and the same total in every column that is not a \<^verbatim>\<open>float64\<close> column: an \<^verbatim>\<open>int64\<close>
  total is the sum of the group taken into the \<^verbatim>\<open>int64\<close> range, whatever the order. The
  total of a \<^verbatim>\<open>float64\<close> measure is added up in the order of the rows, rounded at every
  step, and is not covered.
\<close>

theorem aggregation_ignores_row_order_of_integer_measures:
  "mset rs' = mset (rows df) \<Longrightarrow>
     group_keys dims (rows (fillna_dims dims (df\<lparr>rows := rs'\<rparr>))) =
       group_keys dims (rows (fillna_dims dims df)) \<and>
     cols (groupby_sum dims ms (fillna_dims dims (df\<lparr>rows := rs'\<rparr>))) =
       cols (groupby_sum dims ms (fillna_dims dims df)) \<and>
     (\<forall>col. col \<in> set dims \<or> dtype_of (fillna_dims dims df) col \<noteq> DFloat64 \<longrightarrow>
        col_values col (groupby_sum dims ms (fillna_dims dims (df\<lparr>rows := rs'\<rparr>))) =
        col_values col (groupby_sum dims ms (fillna_dims dims df)))"
proof -
  assume a: "mset rs' = mset (rows df)"
  have m: "mset (rows (fillna_dims dims (df\<lparr>rows := rs'\<rparr>))) = mset (rows (fillna_dims dims df))"
    by (rule fillna_dims_perm(1)) (simp_all add: a)
  have t: "dtype_of (fillna_dims dims (df\<lparr>rows := rs'\<rparr>)) = dtype_of (fillna_dims dims df)"
    by (rule fillna_dims_perm(2)) (simp_all add: a)
  have 1: "group_keys dims (rows (fillna_dims dims (df\<lparr>rows := rs'\<rparr>))) =
       group_keys dims (rows (fillna_dims dims df))"
    using m by (rule group_keys_perm)
  have 2: "cols (groupby_sum dims ms (fillna_dims dims (df\<lparr>rows := rs'\<rparr>))) =
       cols (groupby_sum dims ms (fillna_dims dims df))"
    by (simp add: groupby_sum_def)
  have 3: "col_values col (groupby_sum dims ms (fillna_dims dims (df\<lparr>rows := rs'\<rparr>))) =
        col_values col (groupby_sum dims ms (fillna_dims dims df))"
    if "col \<in> set dims \<or> dtype_of (fillna_dims dims df) col \<noteq> DFloat64" for col
    using m t that by (rule groupby_sum_perm)
  from 1 2 3 show ?thesis
    by blast
qed

theorem aggregation_ignores_row_order_of_integer_measures_witness:
  "mset (rev (rows ex_int_rows)) = mset (rows ex_int_rows) \<and>
   dtype_of (fillna_dims [''Region''] ex_int_rows) ''Sales'' \<noteq> DFloat64 \<and>
   col_values ''Sales''
     (groupby_sum [''Region''] [''Sales''] (fillna_dims [''Region''] (ex_int_rows\<lparr>rows := rev (rows ex_int_rows)\<rparr>))) =
   col_values ''Sales'' (groupby_sum [''Region''] [''Sales''] (fillna_dims [''Region''] ex_int_rows)) \<and>
   col_values ''Sales'' (groupby_sum [''Region''] [''Sales''] (fillna_dims [''Region''] ex_int_rows)) = [Num 1]"
proof -
  have h: "mset (rev (rows ex_int_rows)) = mset (rows ex_int_rows)"
    by simp
  have d: "dtype_of (fillna_dims [''Region''] ex_int_rows) ''Sales'' \<noteq> DFloat64"
    by code_simp
  have v: "col_values ''Sales'' (groupby_sum [''Region''] [''Sales''] (fillna_dims [''Region''] ex_int_rows)) = [Num 1]"
    by code_simp
  from aggregation_ignores_row_order_of_integer_measures [OF h, of "[''Region'']" "[''Sales'']"] d
  have "col_values ''Sales''
     (groupby_sum [''Region''] [''Sales''] (fillna_dims [''Region''] (ex_int_rows\<lparr>rows := rev (rows ex_int_rows)\<rparr>))) =
   col_values ''Sales'' (groupby_sum [''Region''] [''Sales''] (fillna_dims [''Region''] ex_int_rows))"
    by blast
  with h d v show ?thesis
    by simp
qed

section \<open>The result of \<^verbatim>\<open>generate_validation_report\<close>\<close>

lemma iteration_order_set: "iteration_order f \<Longrightarrow> set (f xs) = set xs"
proof -
  assume "iteration_order f"
  then have "mset (f xs) = mset xs"
    unfolding iteration_order_def by (rule spec)
  then show ?thesis
    by (rule mset_eq_setD)
qed

lemma iteration_order_distinct: "iteration_order f \<Longrightarrow> distinct (f xs) = distinct xs"
proof -
  assume "iteration_order f"
  then have "mset (f xs) = mset xs"
    unfolding iteration_order_def by (rule spec)
  then show ?thesis
    by (rule mset_eq_imp_distinct_iff)
qed

lemma iteration_order_id: "iteration_order (\<lambda>xs. xs)"
  by (simp add: iteration_order_def)

lemma iteration_order_as_listed: "iteration_order as_listed"
  by (simp add: iteration_order_def as_listed_def)

lemma the_dims_empty_iff: "the_dims c p = [] \<longleftrightarrow> shared_columns c p = []"
  using select_dims_nonempty [of c p] select_dims_empty [of c p] by (auto simp: the_dims_def)

lemma gvr_no_dims:
  assumes "the_dims c p = []"
  shows "generate_validation_report mo ko c p =
           ((c, p), Inl (ValueError ''No common columns found to use as dimensions.''))"
proof -
  have sel: "select_dims c p = ([], snd (select_dims c p))"
    using assms by (simp add: the_dims_def prod_eq_iff)
  show ?thesis
    unfolding generate_validation_report_def
    apply (subst sel)
    apply (simp only: prod.case Let_def simp_thms if_True)
    done
qed

lemma gvr_fst:
  "fst (generate_validation_report mo ko c p) =
     (if the_dims c p = [] then (c, p)
      else (fillna_dims (the_dims c p) c, fillna_dims (the_dims c p) p))"
  unfolding generate_validation_report_def the_dims_def
  by (simp add: Let_def split: prod.splits)

lemma gvr_Inr_dims:
  "snd (generate_validation_report mo ko c p) = Inr out \<Longrightarrow>
     the_dims c p \<noteq> [] \<and> out_dims out = the_dims c p"
  unfolding generate_validation_report_def the_dims_def
  by (auto simp: Let_def split: prod.splits if_splits sum.splits)

text \<open>The errors that the lines after line 70 can raise are no ValueError.\<close>

lemma series_sub_error: "series_sub a b = Inl e \<Longrightarrow> e = TypeError"
  by (auto simp: series_sub_def split: if_splits)

lemma add_measure_error: "add_measure cagg pagg m t = Inl e \<Longrightarrow> e = TypeError"
  by (auto simp: add_measure_def Let_def split: sum.splits dest: series_sub_error)

lemma add_measures_error: "add_measures cagg pagg ms t = Inl e \<Longrightarrow> e = TypeError"
  by (induction ms arbitrary: t) (auto split: sum.splits dest: add_measure_error)

lemma build_report_error: "build_report ko dims ms cagg pagg = Inl e \<Longrightarrow> e = TypeError"
  by (auto simp: build_report_def Let_def split: sum.splits dest: add_measures_error)

lemma add_unique_key_error: "add_unique_key dims agg = Inl e \<Longrightarrow> e = AttributeError"
  by (auto simp: add_unique_key_def split: if_splits)

lemma gvr_error_after_line_70:
  assumes "the_dims c p \<noteq> []" "snd (generate_validation_report mo ko c p) = Inl e"
  shows "e = AttributeError \<or> e = TypeError"
proof -
  have sel: "select_dims c p = (the_dims c p, snd (select_dims c p))"
    by (simp add: the_dims_def)
  from assms(2) show ?thesis
    unfolding generate_validation_report_def
    apply (subst (asm) sel)
    apply (simp only: prod.case Let_def assms(1) if_False snd_conv)
    apply (auto split: sum.splits dest: add_unique_key_error build_report_error)
    done
qed

text \<open>
  Claim C6. The reconciliation raises the error of line 70 exactly when the two sheets
  share no column; it does so before line 74, leaving both sheets as they were and
  returning nothing. When they share a column the selected dimensions are not empty and
  no ValueError is raised, whatever else the call does.
\<close>

theorem no_common_columns_error_iff:
  "(snd (generate_validation_report mo ko c p) =
      Inl (ValueError ''No common columns found to use as dimensions.'')
    \<longleftrightarrow> shared_columns c p = []) \<and>
   (shared_columns c p = [] \<longrightarrow>
      generate_validation_report mo ko c p =
        ((c, p), Inl (ValueError ''No common columns found to use as dimensions.''))) \<and>
   (shared_columns c p \<noteq> [] \<longrightarrow>
      fst (select_dims c p) \<noteq> [] \<and>
      (\<forall>msg. snd (generate_validation_report mo ko c p) \<noteq> Inl (ValueError msg)))"
proof (cases "shared_columns c p = []")
  case True
  then have "the_dims c p = []"
    by (simp add: the_dims_empty_iff)
  then show ?thesis
    using True by (simp add: gvr_no_dims)
next
  case False
  then have d: "the_dims c p \<noteq> []"
    by (simp add: the_dims_empty_iff)
  have "snd (generate_validation_report mo ko c p) \<noteq> Inl (ValueError msg)" for msg
    using gvr_error_after_line_70 [OF d, of mo ko "ValueError msg"] by auto
  then show ?thesis
    using False d by (simp add: the_dims_def)
qed

theorem no_common_columns_error_iff_witness:
  "shared_columns ex_only_a ex_only_b = [] \<and>
   generate_validation_report (\<lambda>xs. xs) (\<lambda>ks. ks) ex_only_a ex_only_b =
     ((ex_only_a, ex_only_b), Inl (ValueError ''No common columns found to use as dimensions.'')) \<and>
   shared_columns ex_source ex_target \<noteq> [] \<and>
   fst (select_dims ex_source ex_target) \<noteq> [] \<and>
   snd (generate_validation_report (\<lambda>xs. xs) (\<lambda>ks. ks) ex_source ex_target) \<noteq>
     Inl (ValueError ''No common columns found to use as dimensions.'')"
proof -
  have a: "shared_columns ex_only_a ex_only_b = []"
    by code_simp
  have b: "shared_columns ex_source ex_target \<noteq> []"
    by code_simp
  from no_common_columns_error_iff [of "\<lambda>xs. xs" "\<lambda>ks. ks" ex_only_a ex_only_b]
    no_common_columns_error_iff [of "\<lambda>xs. xs" "\<lambda>ks. ks" ex_source ex_target] a b
  show ?thesis
    by simp
qed

section \<open>The inputs after the call\<close>

lemma fillna_dims_changes:
  assumes "r \<in> set (rows df)" "d \<in> set dims" "r d = Missing"
  shows "fillna_dims dims df \<noteq> df"
proof
  assume "fillna_dims dims df = df"
  then have "rows (fillna_dims dims df) = rows df"
    by simp
  then have "map (\<lambda>r col. if col \<in> set dims \<and> r col = Missing then Str ''NAN'' else r col) (rows df)
             = map (\<lambda>r. r) (rows df)"
    by (simp add: rows_fillna_dims)
  then have "(\<lambda>col. if col \<in> set dims \<and> r col = Missing then Str ''NAN'' else r col) = r"
    using assms(1) by (simp only: map_eq_conv)
  then have "(if d \<in> set dims \<and> r d = Missing then Str ''NAN'' else r d) = r d"
    by (rule fun_cong)
  then show False
    using assms(2,3) by simp
qed

text \<open>
  Claim C9. A call that returns has written into both of its arguments: each blank cell
  of a dimension column now holds the string \<^verbatim>\<open>NAN\<close>, so no dimension cell is blank any
  more and a sheet that had one is not what it was; every other cell, the columns and the
  dtype of every column that is not a dimension are as before.
\<close>

theorem inputs_filled_in_place:
  "generate_validation_report mo ko c p = ((c', p'), Inr out) \<Longrightarrow>
     cols c' = cols c \<and> cols p' = cols p \<and>
     rows c' = map (\<lambda>r col. if col \<in> set (out_dims out) \<and> r col = Missing then Str ''NAN'' else r col) (rows c) \<and>
     rows p' = map (\<lambda>r col. if col \<in> set (out_dims out) \<and> r col = Missing then Str ''NAN'' else r col) (rows p) \<and>
     (\<forall>r \<in> set (rows c') \<union> set (rows p'). \<forall>d \<in> set (out_dims out). r d \<noteq> Missing) \<and>
     (\<forall>col. col \<notin> set (out_dims out) \<longrightarrow>
        dtype_of c' col = dtype_of c col \<and> dtype_of p' col = dtype_of p col) \<and>
     ((\<exists>r \<in> set (rows c). \<exists>d \<in> set (out_dims out). r d = Missing) \<longrightarrow> c' \<noteq> c) \<and>
     ((\<exists>r \<in> set (rows p). \<exists>d \<in> set (out_dims out). r d = Missing) \<longrightarrow> p' \<noteq> p)"
proof -
  assume a: "generate_validation_report mo ko c p = ((c', p'), Inr out)"
  then have "snd (generate_validation_report mo ko c p) = Inr out"
    by simp
  then have d: "the_dims c p \<noteq> []" "out_dims out = the_dims c p"
    using gvr_Inr_dims by blast+
  from a have "fst (generate_validation_report mo ko c p) = (c', p')"
    by simp
  then have c': "c' = fillna_dims (out_dims out) c" and p': "p' = fillna_dims (out_dims out) p"
    using d by (simp_all add: gvr_fst)
  have 1: "cols c' = cols c \<and> cols p' = cols p"
    by (simp add: c' p')
  have 2: "rows c' = map (\<lambda>r col. if col \<in> set (out_dims out) \<and> r col = Missing then Str ''NAN'' else r col) (rows c)"
    unfolding c' by (rule rows_fillna_dims)
  have 3: "rows p' = map (\<lambda>r col. if col \<in> set (out_dims out) \<and> r col = Missing then Str ''NAN'' else r col) (rows p)"
    unfolding p' by (rule rows_fillna_dims)
  have 4: "\<forall>r \<in> set (rows c') \<union> set (rows p'). \<forall>d \<in> set (out_dims out). r d \<noteq> Missing"
    unfolding c' p' by (blast dest: fillna_dims_no_missing)
  have 5: "\<forall>col. col \<notin> set (out_dims out) \<longrightarrow>
        dtype_of c' col = dtype_of c col \<and> dtype_of p' col = dtype_of p col"
    unfolding c' p' by (simp add: dtype_fillna_dims_other)
  have 6: "(\<exists>r \<in> set (rows c). \<exists>d \<in> set (out_dims out). r d = Missing) \<longrightarrow> c' \<noteq> c"
    unfolding c' by (blast dest: fillna_dims_changes)
  have 7: "(\<exists>r \<in> set (rows p). \<exists>d \<in> set (out_dims out). r d = Missing) \<longrightarrow> p' \<noteq> p"
    unfolding p' by (blast dest: fillna_dims_changes)
  from 1 2 3 4 5 6 7 show ?thesis
    by blast
qed

lemma ex_two_easts_blank: "\<exists>r \<in> set (rows ex_two_easts). r ''Region'' = Missing"
  by code_simp

lemma ex_two_easts_call_returns:
  "case snd (generate_validation_report (\<lambda>xs. xs) (\<lambda>ks. ks) ex_two_easts ex_one_east) of
     Inl e \<Rightarrow> False | Inr out \<Rightarrow> True"
  by code_simp

theorem inputs_filled_in_place_witness:
  "generate_validation_report (\<lambda>xs. xs) (\<lambda>ks. ks) ex_two_easts ex_one_east =
     ((fst (fst (generate_validation_report (\<lambda>xs. xs) (\<lambda>ks. ks) ex_two_easts ex_one_east)),
       snd (fst (generate_validation_report (\<lambda>xs. xs) (\<lambda>ks. ks) ex_two_easts ex_one_east))),
      snd (generate_validation_report (\<lambda>xs. xs) (\<lambda>ks. ks) ex_two_easts ex_one_east)) \<and>
   (\<exists>out. snd (generate_validation_report (\<lambda>xs. xs) (\<lambda>ks. ks) ex_two_easts ex_one_east) = Inr out \<and>
      out_dims out = [''Region'']) \<and>
   fst (fst (generate_validation_report (\<lambda>xs. xs) (\<lambda>ks. ks) ex_two_easts ex_one_east)) \<noteq> ex_two_easts \<and>
   map (\<lambda>r. r ''Region'')
     (rows (fst (fst (generate_validation_report (\<lambda>xs. xs) (\<lambda>ks. ks) ex_two_easts ex_one_east)))) =
     [Str ''EAST'', Str ''east'', Str ''NAN'']"
proof -
  let ?g = "generate_validation_report (\<lambda>xs. xs) (\<lambda>ks. ks) ex_two_easts ex_one_east"
  have dims: "the_dims ex_two_easts ex_one_east = [''Region'']"
    by code_simp
  from ex_two_easts_call_returns obtain out where out: "snd ?g = Inr out"
    by (cases "snd ?g") simp_all
  then have g: "?g = ((fst (fst ?g), snd (fst ?g)), Inr out)"
    by (simp add: prod_eq_iff)
  have od: "out_dims out = [''Region'']"
    using gvr_Inr_dims [OF out] dims by simp
  note th = inputs_filled_in_place [OF g]
  from th ex_two_easts_blank od have ne: "fst (fst ?g) \<noteq> ex_two_easts"
    by auto
  from th od have "rows (fst (fst ?g)) =
      map (\<lambda>r col. if col \<in> set [''Region''] \<and> r col = Missing then Str ''NAN'' else r col) (rows ex_two_easts)"
    by simp
  then have "map (\<lambda>r. r ''Region'') (rows (fst (fst ?g))) = [Str ''EAST'', Str ''east'', Str ''NAN'']"
    by (simp add: ex_defs)
  with ne out od show ?thesis
    by (simp add: prod_eq_iff)
qed

section \<open>The unified keys\<close>

lemma unified_keys_distinct_union:
  assumes "iteration_order ko"
  shows "distinct (unified_keys ko cagg pagg)"
    and "set (unified_keys ko cagg pagg) =
           set (col_values ''unique_key'' cagg) \<union> set (col_values ''unique_key'' pagg)"
  by (simp_all add: unified_keys_def set_union_list_def iteration_order_distinct [OF assms]
      iteration_order_set [OF assms])

text \<open>
  Claim C4. The list of line 87 has no duplicate and is the union of the keys of the two
  aggregates (lemma \<open>unified_keys_distinct_union\<close>). A shared column that is itself called
  \<^verbatim>\<open>unique_key\<close> is always a dimension, its name containing \<^verbatim>\<open>_key\<close>; line 90 then
  overwrites the key column of the report with the mapped dimension, line 91 looks the
  blanks up by the blanked keys, and the key of every row that only the target has is
  lost: below, the second row of the report has a blank key, which is a key of neither
  aggregate, and the target's total 2 appears nowhere.
\<close>

theorem key_column_lost_when_dimension_is_unique_key:
  "reconcile_printed as_listed as_listed ex_key_source ex_key_target =
     Inr (([''unique_key'', ''unique_key'', ''presence'', ''Sales_Cognos'', ''Sales_PBI'', ''Sales_Diff''],
           [[Str ''A'', Str ''A'', Str ''Present in Cognos'', Flt 1, Missing, Flt (- 1)],
            [Missing, Missing, Str ''Present in PBI'', Missing, Missing, Flt 0]]),
          ([''unique_key'', ''Sales''], [[Str ''A'', Num 1]]),
          ([''unique_key'', ''Sales''], [[Str ''B'', Num 2]]))"
  by code_simp

section \<open>Differences and presence\<close>

text \<open>
  Claim C1. Every row of the report should carry, for each measure, the target's total
  minus the source's total for its key, a side without the key counting as 0, and the
  presence label that says which of the two aggregates have the key. On the two sheets
  whose shared text column is called \<^verbatim>\<open>unique_key\<close> the target's only key is \<^verbatim>\<open>B\<close> with the
  total 2, and the source does not have it: its row should read \<^verbatim>\<open>Present in PBI\<close> with
  the target value 2 and the difference 2. Line 90 has overwritten the key of that row
  with a blank, so lines 94 to 102 look a blank up: the row is labelled
  \<^verbatim>\<open>Present in PBI\<close> although its key is in neither aggregate, its target cell is blank
  and its difference is 0.
\<close>

theorem target_total_missing_from_row_when_dimension_is_unique_key:
  "map_sum id snd (reconcile_printed as_listed as_listed ex_key_source ex_key_target) =
     Inr (([''unique_key'', ''Sales''], [[Str ''A'', Num 1]]),
          ([''unique_key'', ''Sales''], [[Str ''B'', Num 2]])) \<and>
   report_lines [''unique_key'', ''presence'', ''Sales_Cognos'', ''Sales_PBI'', ''Sales_Diff'']
       as_listed as_listed ex_key_source ex_key_target =
     Inr [[Str ''A'', Str ''Present in Cognos'', Flt 1, Missing, Flt (- 1)],
          [Missing, Str ''Present in PBI'', Missing, Missing, Flt 0]]"
proof -
  have "map_sum id snd (reconcile_printed as_listed as_listed ex_key_source ex_key_target) =
     Inr (([''unique_key'', ''Sales''], [[Str ''A'', Num 1]]),
          ([''unique_key'', ''Sales''], [[Str ''B'', Num 2]]))"
    by code_simp
  moreover have "report_lines [''unique_key'', ''presence'', ''Sales_Cognos'', ''Sales_PBI'', ''Sales_Diff'']
       as_listed as_listed ex_key_source ex_key_target =
     Inr [[Str ''A'', Str ''Present in Cognos'', Flt 1, Missing, Flt (- 1)],
          [Missing, Str ''Present in PBI'', Missing, Missing, Flt 0]]"
    by code_simp
  ultimately show ?thesis
    by simp
qed

section \<open>An empty Measure Set\<close>

lemma column_order_no_measures: "column_order dims [] = ''unique_key'' # dims @ [''presence'']"
  by (simp add: column_order_def)

text \<open>
  Claim C8. Two sheets with an empty Measure Set should give a report with the key, the
  dimensions and the presence column, and no error. Two sheets that have their header
  row and no row of data share their columns, every one an \<^verbatim>\<open>object\<close> column, so the
  dimensions are not empty and the Measure Set is; the aggregate of line 81 has no row,
  and line 84 raises AttributeError instead of giving a report without rows.
\<close>

theorem header_only_sheets_raise_attribute_error:
  "shared_columns ex_header_only ex_header_only = [''Region'', ''Sales''] \<and>
   fst (select_dims ex_header_only ex_header_only) = [''Region'', ''Sales''] \<and>
   spec_measure_set [''Region'', ''Sales''] ex_header_only ex_header_only = [] \<and>
   reconcile_printed as_listed as_listed ex_header_only ex_header_only = Inl AttributeError"
  by code_simp

section \<open>Colliding keys\<close>

text \<open>
  Claim C10 as stated fails when the colliding rows are the target's and the source has
  the key too: below the target's rows \<^verbatim>\<open>EAST\<close> and \<^verbatim>\<open>east\<close> share the key \<^verbatim>\<open>EAST\<close>, the
  last of them is \<^verbatim>\<open>east\<close>, and the row of the report has the region \<^verbatim>\<open>East\<close> of the
  source (its target measure, 20, is the last colliding row's).
\<close>

theorem collision_in_target_keeps_source_dimensions:
  "reconcile_printed as_listed as_listed ex_one_east ex_two_easts =
     Inr (([''unique_key'', ''Region'', ''presence'', ''Sales_Cognos'', ''Sales_PBI'', ''Sales_Diff''],
           [[Str ''NAN'', Str ''NAN'', Str ''Present in PBI'', Missing, Num 7, Flt 7],
            [Str ''EAST'', Str ''East'', Str ''Present in Both'', Flt 100, Num 20, Flt (- 80)]]),
          ([''Region'', ''Sales'', ''unique_key''], [[Str ''East'', Num 100, Str ''EAST'']]),
          ([''Region'', ''Sales'', ''unique_key''],
           [[Str ''EAST'', Num 90, Str ''EAST''], [Str ''NAN'', Num 7, Str ''NAN''],
            [Str ''east'', Num 20, Str ''EAST'']]))"
  by code_simp

section \<open>The summary\<close>

text \<open>
  Claim C5. The summary should have one row per measure, with the sum of its Diff
  column, and the trailing row. Line 125 takes every column whose label ends in
  \<^verbatim>\<open>_Diff\<close>, so a dimension with such a name gets a row of its own: the sheet below has
  no measure at all, and its summary has a row for the text column \<^verbatim>\<open>Cust_Diff\<close> before
  the trailing row.
\<close>

theorem summary_row_for_dimension_named_like_a_diff:
  "fst (select_dims ex_diff_sheet ex_diff_sheet) = [''Cust_Diff''] \<and>
   spec_measure_set [''Cust_Diff''] ex_diff_sheet ex_diff_sheet = [] \<and>
   summary_printed as_listed as_listed ex_diff_sheet ex_diff_sheet =
     Inr [(''Cust_Diff'', Str ''A''), (''All rows present in both'', Str ''Yes'')]"
  by code_simp

end
